theory Spec2Isabelle
  imports Main
begin

section \<open>Host values: strings, errors, the vault\<close>

text \<open>
  JavaScript strings are modelled as \<^typ>\<open>string\<close>. The three string methods the path
  utility calls are written out with the clamping that JavaScript performs:
  \<open>substring(a, b)\<close> clamps both indices into \<open>[0, length]\<close> and swaps them when
  \<open>a > b\<close>; \<open>substring(a)\<close> is \<open>substring(a, length)\<close>.
\<close>

definition startsWith :: "string \<Rightarrow> string \<Rightarrow> bool" where
  "startsWith s searchString = (take (length searchString) s = searchString)"

definition endsWith :: "string \<Rightarrow> string \<Rightarrow> bool" where
  "endsWith s searchString =
     (length searchString \<le> length s \<and> drop (length s - length searchString) s = searchString)"

definition substring :: "string \<Rightarrow> int \<Rightarrow> int \<Rightarrow> string" where
  "substring s indexStart indexEnd =
     (let n = int (length s);
          a = max 0 (min indexStart n);
          b = max 0 (min indexEnd n)
      in take (nat (max a b - min a b)) (drop (nat (min a b)) s))"

definition substringFrom :: "string \<Rightarrow> int \<Rightarrow> string" where
  "substringFrom s indexStart = substring s indexStart (int (length s))"

text \<open>Every \<open>throw new Error(message)\<close> of the source is a value \<open>Error message\<close>.\<close>

datatype error = Error string

definition invalidEnvironment :: error where
  "invalidEnvironment = Error ''Invalid environment : Jupyter for Obsidian needs a FileSystemAdapter instance to work with absolute paths.''"

definition invalidArgument :: error where
  "invalidArgument = Error ''Invalid argument in JupyterAbstractPath constructor : `relative` must not be `null` if `isInVault` is set to `true`''"

definition appendToFile :: error where
  "appendToFile = Error ''Cannot append a path to a file, the instance must represent a folder.''"

definition outsideVault :: error where
  "outsideVault = Error ''Creating a new notebook can only be done within the vault.''"

text \<open>
  A vault carries a data adapter; only a \<open>FileSystemAdapter\<close> knows the absolute base
  path of the vault.
\<close>

datatype DataAdapter = FileSystemAdapter (getBasePath: string) | OtherAdapter

record Vault =
  adapter :: DataAdapter

definition getVaultRootPath :: "Vault \<Rightarrow> error + string" where
  "getVaultRootPath vault =
     (case adapter vault of
        FileSystemAdapter basePath \<Rightarrow> Inr basePath
      | OtherAdapter \<Rightarrow> Inl invalidEnvironment)"

text \<open>
  Modelled from the spec: \<open>normalizePath\<close> is a function of the host application and is
  not part of the repository. The specification describes the normalized form as having
  "no redundant separators" and a "consistent separator character": every backslash
  becomes a forward slash and every run of separators becomes a single one. The operations
  below take the normalizer as a parameter \<open>np\<close>; this definition is the instance used
  wherever a result depends on what the normalizer returns.
\<close>

definition toSlash :: "char \<Rightarrow> char" where
  "toSlash c = (if c = CHR 0x5C then CHR ''/'' else c)"

fun collapse :: "string \<Rightarrow> string" where
  "collapse [] = []"
| "collapse [c] = [c]"
| "collapse (c # d # cs) =
     (if c = CHR ''/'' \<and> d = CHR ''/'' then collapse (d # cs) else c # collapse (d # cs))"

definition normalizePath :: "string \<Rightarrow> string" where
  "normalizePath path = collapse (map toSlash path)"

section \<open>The abstract path\<close>

record JupyterAbstractPath =
  absolutePath :: string
  relativePath :: "string option"
  isDirectory :: bool
  isInVault :: bool

definition getAbsolutePath :: "JupyterAbstractPath \<Rightarrow> string" where
  "getAbsolutePath this = absolutePath this"

definition getRelativePath :: "JupyterAbstractPath \<Rightarrow> string option" where
  "getRelativePath this = (if \<not> isInVault this then None else relativePath this)"

definition isFolder :: "JupyterAbstractPath \<Rightarrow> bool" where
  "isFolder this = isDirectory this"

text \<open>The method \<open>inVault()\<close> of the class; the free function of the same name follows.\<close>

definition JupyterAbstractPath_inVault :: "JupyterAbstractPath \<Rightarrow> bool" where
  "JupyterAbstractPath_inVault this = isInVault this"

text \<open>
  The free function \<open>inVault(path, vault, root = null)\<close>. Its first argument is either a
  string or an abstract path.
\<close>

definition inVault :: "string + JupyterAbstractPath \<Rightarrow> Vault \<Rightarrow> string option \<Rightarrow> error + bool" where
  "inVault path vault root =
     (let p = (case path of Inl s \<Rightarrow> s | Inr x \<Rightarrow> getAbsolutePath x)
      in case root of
           None \<Rightarrow> (case getVaultRootPath vault of
                      Inl e \<Rightarrow> Inl e
                    | Inr r \<Rightarrow> Inr (startsWith p r))
         | Some r \<Rightarrow> Inr (startsWith p r))"

text \<open>
  The constructor. The absolute path is normalized and then given or stripped of its
  trailing separator. The relative path is not normalized; its trailing separator is
  added for a folder, and for a file the source cuts it with
  \<open>relative.substring(0, absolute.length - 1)\<close>, where \<open>absolute\<close> is the absolute path
  as already adjusted.
\<close>

definition constructor ::
  "(string \<Rightarrow> string) \<Rightarrow> string \<Rightarrow> string option \<Rightarrow> bool \<Rightarrow> bool \<Rightarrow> error + JupyterAbstractPath" where
  "constructor np absolute relative isFolder' isInVault' =
     (let absolute1 = np absolute;
          absolute2 =
            (if isFolder' \<and> \<not> endsWith absolute1 ''/'' then absolute1 @ ''/''
             else if \<not> isFolder' \<and> endsWith absolute1 ''/''
               then substring absolute1 0 (int (length absolute1) - 1)
             else absolute1)
      in if \<not> isInVault' then
           Inr \<lparr>absolutePath = absolute2, relativePath = None,
                isDirectory = isFolder', isInVault = isInVault'\<rparr>
         else case relative of
           None \<Rightarrow> Inl invalidArgument
         | Some relative0 \<Rightarrow>
             Inr \<lparr>absolutePath = absolute2,
                  relativePath = Some
                    (if isFolder' \<and> \<not> endsWith relative0 ''/'' then relative0 @ ''/''
                     else if \<not> isFolder' \<and> endsWith relative0 ''/''
                       then substring relative0 0 (int (length absolute2) - 1)
                     else relative0),
                  isDirectory = isFolder', isInVault = isInVault'\<rparr>)"

text \<open>\<open>append\<close>: the receiver must be a folder; one leading separator of the argument is dropped.\<close>

definition append_path ::
  "(string \<Rightarrow> string) \<Rightarrow> JupyterAbstractPath \<Rightarrow> string \<Rightarrow> bool \<Rightarrow> error + JupyterAbstractPath" where
  "append_path np this relativePath' isFolder' =
     (if \<not> isFolder this then Inl appendToFile
      else
        let relativePath1 =
              (if startsWith relativePath' ''/'' then substringFrom relativePath' 1
               else relativePath')
        in constructor np
             (absolutePath this @ relativePath1)
             (case relativePath this of None \<Rightarrow> None | Some r \<Rightarrow> Some (r @ relativePath1))
             isFolder'
             (JupyterAbstractPath_inVault this))"

definition fromAbsolute ::
  "(string \<Rightarrow> string) \<Rightarrow> string \<Rightarrow> bool \<Rightarrow> Vault \<Rightarrow> error + JupyterAbstractPath" where
  "fromAbsolute np absolute isFolder' vault =
     (case getVaultRootPath vault of
        Inl e \<Rightarrow> Inl e
      | Inr vaultRoot \<Rightarrow>
          (case inVault (Inl absolute) vault (Some vaultRoot) of
             Inl e \<Rightarrow> Inl e
           | Inr isInVault' \<Rightarrow>
               constructor np absolute
                 (if isInVault' then Some (substringFrom absolute (int (length vaultRoot))) else None)
                 isFolder' isInVault'))"

definition fromRelative ::
  "(string \<Rightarrow> string) \<Rightarrow> string \<Rightarrow> bool \<Rightarrow> Vault \<Rightarrow> error + JupyterAbstractPath" where
  "fromRelative np relative isFolder' vault =
     (case getVaultRootPath vault of
        Inl e \<Rightarrow> Inl e
      | Inr vaultRoot0 \<Rightarrow>
          let vaultRoot = (if \<not> endsWith vaultRoot0 ''/'' then vaultRoot0 @ ''/'' else vaultRoot0);
              relative1 = (if startsWith relative ''/'' then substringFrom relative 1 else relative)
          in constructor np (vaultRoot @ relative1) (Some relative1) isFolder' True)"

text \<open>
  Objects live in a store, addressed by their position. \<open>new JupyterAbstractPath(...)\<close>
  allocates the object that the constructor returns; a constructor that throws allocates
  nothing. The method \<open>append\<close> on a reference reads the fields of its receiver from the
  store and allocates its result.
\<close>

type_synonym store = "JupyterAbstractPath list"

definition new_JupyterAbstractPath ::
  "(string \<Rightarrow> string) \<Rightarrow> string \<Rightarrow> string option \<Rightarrow> bool \<Rightarrow> bool \<Rightarrow> store \<Rightarrow> (error + nat) \<times> store" where
  "new_JupyterAbstractPath np absolute relative isFolder' isInVault' st =
     (case constructor np absolute relative isFolder' isInVault' of
        Inl e \<Rightarrow> (Inl e, st)
      | Inr obj \<Rightarrow> (Inr (length st), st @ [obj]))"

definition append_ref ::
  "(string \<Rightarrow> string) \<Rightarrow> nat \<Rightarrow> string \<Rightarrow> bool \<Rightarrow> store \<Rightarrow> (error + nat) \<times> store" where
  "append_ref np this relativePath' isFolder' st =
     (if \<not> isFolder (st ! this) then (Inl appendToFile, st)
      else
        let relativePath1 =
              (if startsWith relativePath' ''/'' then substringFrom relativePath' 1
               else relativePath')
        in new_JupyterAbstractPath np
             (absolutePath (st ! this) @ relativePath1)
             (case relativePath (st ! this) of None \<Rightarrow> None | Some r \<Rightarrow> Some (r @ relativePath1))
             isFolder'
             (JupyterAbstractPath_inVault (st ! this))
             st)"

section \<open>Notebook creation\<close>

text \<open>
  The default file name is built from the local time. \<open>String(n)\<close> is the decimal
  numeral of \<open>n\<close>; \<open>padStart(targetLength, padString)\<close> fills on the left.
\<close>

record Date =
  getFullYear :: nat
  getMonth :: nat
  getDate :: nat
  getHours :: nat
  getMinutes :: nat
  getSeconds :: nat

fun String :: "nat \<Rightarrow> string" where
  "String n =
     (if n < 10 then [''0123456789'' ! n]
      else String (n div 10) @ [''0123456789'' ! (n mod 10)])"

declare String.simps [simp del]

definition padStart :: "string \<Rightarrow> nat \<Rightarrow> string \<Rightarrow> string" where
  "padStart s targetLength padString =
     (if targetLength \<le> length s then s
      else take (targetLength - length s)
             (concat (replicate (targetLength - length s) padString)) @ s)"

definition getDefaultNotebookFilename :: "Date \<Rightarrow> string" where
  "getDefaultNotebookFilename now =
     (let year = getFullYear now;
          month = padStart (String (getMonth now + 1)) 2 ''0'';
          day = padStart (String (getDate now)) 2 ''0'';
          hours = padStart (String (getHours now)) 2 ''0'';
          minutes = padStart (String (getMinutes now)) 2 ''0'';
          seconds = padStart (String (getSeconds now)) 2 ''0''
      in ''Jupyter Notebook '' @ String year @ ''-'' @ month @ ''-'' @ day @ ''-'' @ hours
           @ ''-'' @ minutes @ ''-'' @ seconds @ ''.ipynb'')"

text \<open>
  Modelled from the spec: the adapter's \<open>exists\<close> and \<open>write\<close>, \<open>Notice\<close> and the
  opening of a file in a tab belong to the host application and are not part of the
  repository. The specification lists them as an existence check and a write "scoped to
  the sandboxed root" and a "user-visible notice". The host is the files of the vault by
  their vault-relative path, and the calls made so far, in order; \<open>exists\<close> answers
  whether the path has a file, \<open>write\<close> stores the data under the path.
\<close>

datatype hostCall =
    Exists string
  | Write string string
  | Notice string
  | OpenFile string

record Host =
  files :: "string \<rightharpoonup> string"
  calls :: "hostCall list"

definition adapter_exists :: "string \<Rightarrow> Host \<Rightarrow> bool \<times> Host" where
  "adapter_exists path h = (files h path \<noteq> None, h\<lparr>calls := calls h @ [Exists path]\<rparr>)"

definition adapter_write :: "string \<Rightarrow> string \<Rightarrow> Host \<Rightarrow> Host" where
  "adapter_write path data h =
     h\<lparr>files := (files h)(path \<mapsto> data), calls := calls h @ [Write path data]\<rparr>"

definition new_Notice :: "string \<Rightarrow> Host \<Rightarrow> Host" where
  "new_Notice message h = h\<lparr>calls := calls h @ [Notice message]\<rparr>"

definition openFile :: "string \<Rightarrow> Host \<Rightarrow> Host" where
  "openFile path h = h\<lparr>calls := calls h @ [OpenFile path]\<rparr>"

definition minimalNotebook :: string where
  \<open>minimalNotebook = ''{"cells": [],"metadata": {"kernelspec": {"display_name": "","name": ""},"language_info": {"name": ""}},"nbformat": 4,"nbformat_minor": 5}''\<close>

definition alreadyExists :: "string \<Rightarrow> string" where
  \<open>alreadyExists path = ''The file "'' @ path @ ''" already exists, creation was aborted to avoid overwriting it. Please try again.''\<close>

text \<open>
  \<open>createJupyterNotebook\<close>. The cast \<open>file.getRelativePath() as string\<close> is unchecked in
  the source; here it is \<^const>\<open>the\<close>, and the relative path of \<open>file\<close> is present whenever
  this point is reached, since \<open>file\<close> inherits the in-vault flag that was just tested.
\<close>

definition createJupyterNotebook ::
  "(string \<Rightarrow> string) \<Rightarrow> Date \<Rightarrow> JupyterAbstractPath \<Rightarrow> Host \<Rightarrow> (error + unit) \<times> Host" where
  "createJupyterNotebook np now folder h =
     (if \<not> JupyterAbstractPath_inVault folder then (Inl outsideVault, h)
      else case append_path np folder (getDefaultNotebookFilename now) False of
        Inl e \<Rightarrow> (Inl e, h)
      | Inr file \<Rightarrow>
          let path = the (getRelativePath file);
              (found, h1) = adapter_exists path h;
              h2 = (if found then new_Notice (alreadyExists path) h1 else h1);
              h3 = adapter_write path minimalNotebook h2;
              h4 = openFile path h3
          in (Inr (), h4))"

section \<open>Properties\<close>

subsection \<open>String methods in list terms\<close>

lemma startsWith_slash: "startsWith s ''/'' = (s \<noteq> [] \<and> hd s = CHR ''/'')"
  by (cases s) (auto simp: startsWith_def)

lemma endsWith_slash: "endsWith s ''/'' = (s \<noteq> [] \<and> last s = CHR ''/'')"
  by (cases s rule: rev_cases) (auto simp: endsWith_def)

lemma substringFrom_drop: "substringFrom s (int n) = drop n s"
  by (auto simp: substringFrom_def substring_def Let_def min_def max_def)

lemma substringFrom_1: "substringFrom s 1 = drop 1 s"
  using substringFrom_drop [of s 1] by simp


subsection \<open>What the constructor returns\<close>

lemma constructor_Inr_iff:
  "(\<exists>x. constructor np a r f v = Inr x) = (\<not> (v \<and> r = None))"
  by (auto simp: constructor_def Let_def split: option.splits)

lemma constructor_fields:
  assumes "constructor np a r f v = Inr x"
  shows "isDirectory x = f" and "isInVault x = v"
    and "(relativePath x = None) = (\<not> v)"
  using assms by (auto simp: constructor_def Let_def split: option.splits if_splits)

lemma append_path_constructed:
  assumes "constructor np a0 r0 True v0 = Inr x"
  shows "\<exists>y. append_path np x c f = Inr y"
proof -
  have "isDirectory x" and "(relativePath x = None) = (\<not> isInVault x)"
    using constructor_fields [OF assms] by simp_all
  then show ?thesis
    using constructor_Inr_iff [of np _ _ f "isInVault x"]
    by (cases "relativePath x")
       (simp_all add: append_path_def isFolder_def JupyterAbstractPath_inVault_def Let_def)
qed



subsection \<open>Errors of \<open>append\<close> and of the constructor\<close>

text \<open>
  C4. Calling \<open>append\<close> on a path whose directory flag is unset fails with the
  invalid-operation error of the source, whatever the arguments and the normalizer; no
  value is returned.
\<close>

theorem append_on_file_fails:
  "\<not> isDirectory this \<Longrightarrow> append_path np this relativePath' isFolder' = Inl appendToFile"
  by (simp add: append_path_def isFolder_def)

theorem append_on_file_fails_witness:
  "\<not> isDirectory \<lparr>absolutePath = ''/vault/a.ipynb'', relativePath = Some ''a.ipynb'',
                   isDirectory = False, isInVault = True\<rparr>
   \<and> append_path normalizePath
         \<lparr>absolutePath = ''/vault/a.ipynb'', relativePath = Some ''a.ipynb'',
          isDirectory = False, isInVault = True\<rparr> ''b'' True = Inl appendToFile"
  using append_on_file_fails
    [of "\<lparr>absolutePath = ''/vault/a.ipynb'', relativePath = Some ''a.ipynb'',
          isDirectory = False, isInVault = True\<rparr>" normalizePath "''b''" True]
  by simp

text \<open>
  C7. In every value that the constructor, \<open>fromAbsolute\<close>, \<open>fromRelative\<close> or \<open>append\<close>
  returns, the relative path is present exactly when the in-vault flag is set, and
  \<open>getRelativePath\<close> answers null exactly when \<open>inVault()\<close> is false. The constructor
  called with the in-vault flag set and no relative path throws its invalid-argument error.
\<close>

theorem relative_present_iff_in_vault:
  assumes "constructor np a r f v = Inr x \<or> fromAbsolute np a f vault = Inr x
           \<or> fromRelative np a f vault = Inr x \<or> append_path np y a f = Inr x"
  shows "(relativePath x \<noteq> None) = isInVault x
         \<and> (getRelativePath x = None) = (\<not> JupyterAbstractPath_inVault x)
         \<and> constructor np a' None f' True = Inl invalidArgument"
proof -
  obtain a1 r1 f1 v1 where c: "constructor np a1 r1 f1 v1 = Inr x"
    using assms
    by (auto simp: fromAbsolute_def fromRelative_def append_path_def inVault_def Let_def
        split: sum.splits if_splits)
  have 1: "(relativePath x \<noteq> None) = isInVault x"
    using constructor_fields [OF c] by simp
  then have 2: "(getRelativePath x = None) = (\<not> JupyterAbstractPath_inVault x)"
    by (auto simp: getRelativePath_def JupyterAbstractPath_inVault_def)
  have 3: "constructor np a' None f' True = Inl invalidArgument"
    by (simp add: constructor_def Let_def)
  from 1 2 3 show ?thesis by simp
qed

theorem relative_present_iff_in_vault_witness:
  "constructor normalizePath ''/vault/Notes/'' (Some ''Notes/'') True True =
     Inr \<lparr>absolutePath = ''/vault/Notes/'', relativePath = Some ''Notes/'',
          isDirectory = True, isInVault = True\<rparr>
   \<and> relativePath \<lparr>absolutePath = ''/vault/Notes/'', relativePath = Some ''Notes/'',
          isDirectory = True, isInVault = True\<rparr> \<noteq> None
   \<and> getRelativePath \<lparr>absolutePath = ''/vault/Notes/'', relativePath = Some ''Notes/'',
          isDirectory = True, isInVault = True\<rparr> = Some ''Notes/''
   \<and> constructor normalizePath ''/vault/Notes/'' None True True = Inl invalidArgument"
proof -
  have c: "constructor normalizePath ''/vault/Notes/'' (Some ''Notes/'') True True =
     Inr \<lparr>absolutePath = ''/vault/Notes/'', relativePath = Some ''Notes/'',
          isDirectory = True, isInVault = True\<rparr>"
    by code_simp
  from c relative_present_iff_in_vault
    [of normalizePath "''/vault/Notes/''" "Some ''Notes/''" True True
      "\<lparr>absolutePath = ''/vault/Notes/'', relativePath = Some ''Notes/'',
        isDirectory = True, isInVault = True\<rparr>"
      "\<lparr>adapter = FileSystemAdapter ''/vault''\<rparr>"
      "\<lparr>absolutePath = ''/vault/'', relativePath = Some ''/'',
        isDirectory = True, isInVault = True\<rparr>"
      "''/vault/Notes/''" True]
  show ?thesis
    by (simp add: getRelativePath_def)
qed

subsection \<open>The worked example\<close>

text \<open>
  C6. With the vault root \<open>/vault/\<close>, \<open>fromRelative("Notes/", true, vault)\<close> followed by
  \<open>append("2024-Log.ipynb", false)\<close> has the absolute path \<open>/vault/Notes/2024-Log.ipynb\<close>
  and the relative path \<open>Notes/2024-Log.ipynb\<close>. The absolute path passes through the
  normalizer of the host twice; the result holds for every normalizer that leaves the
  already normalized \<open>/vault/Notes/2024-Log.ipynb\<close> alone and returns \<open>/vault/Notes/\<close>
  with or without its trailing separator.
\<close>

theorem example_notes_log:
  assumes "np ''/vault/Notes/'' = ''/vault/Notes/'' \<or> np ''/vault/Notes/'' = ''/vault/Notes''"
    and "np ''/vault/Notes/2024-Log.ipynb'' = ''/vault/Notes/2024-Log.ipynb''"
  shows "(case fromRelative np ''Notes/'' True \<lparr>adapter = FileSystemAdapter ''/vault/''\<rparr> of
            Inl e \<Rightarrow> Inl e
          | Inr folder \<Rightarrow> append_path np folder ''2024-Log.ipynb'' False) =
         Inr \<lparr>absolutePath = ''/vault/Notes/2024-Log.ipynb'',
              relativePath = Some ''Notes/2024-Log.ipynb'',
              isDirectory = False, isInVault = True\<rparr>"
proof -
  have step1: "fromRelative np ''Notes/'' True \<lparr>adapter = FileSystemAdapter ''/vault/''\<rparr> =
      Inr \<lparr>absolutePath = ''/vault/Notes/'', relativePath = Some ''Notes/'',
           isDirectory = True, isInVault = True\<rparr>"
    using assms(1)
    by (auto simp: fromRelative_def getVaultRootPath_def constructor_def Let_def
        endsWith_slash startsWith_slash)
  have step2: "append_path np \<lparr>absolutePath = ''/vault/Notes/'', relativePath = Some ''Notes/'',
           isDirectory = True, isInVault = True\<rparr> ''2024-Log.ipynb'' False =
         Inr \<lparr>absolutePath = ''/vault/Notes/2024-Log.ipynb'',
              relativePath = Some ''Notes/2024-Log.ipynb'',
              isDirectory = False, isInVault = True\<rparr>"
    using assms(2)
    by (simp add: append_path_def isFolder_def JupyterAbstractPath_inVault_def
        constructor_def Let_def endsWith_slash startsWith_slash)
  show ?thesis by (simp add: step1 step2)
qed

theorem example_notes_log_witness:
  "(normalizePath ''/vault/Notes/'' = ''/vault/Notes/'' \<or> normalizePath ''/vault/Notes/'' = ''/vault/Notes'')
   \<and> normalizePath ''/vault/Notes/2024-Log.ipynb'' = ''/vault/Notes/2024-Log.ipynb''
   \<and> (case fromRelative normalizePath ''Notes/'' True \<lparr>adapter = FileSystemAdapter ''/vault/''\<rparr> of
            Inl e \<Rightarrow> Inl e
          | Inr folder \<Rightarrow> append_path normalizePath folder ''2024-Log.ipynb'' False) =
         Inr \<lparr>absolutePath = ''/vault/Notes/2024-Log.ipynb'',
              relativePath = Some ''Notes/2024-Log.ipynb'',
              isDirectory = False, isInVault = True\<rparr>"
proof -
  have 1: "normalizePath ''/vault/Notes/'' = ''/vault/Notes/''" by code_simp
  have 2: "normalizePath ''/vault/Notes/2024-Log.ipynb'' = ''/vault/Notes/2024-Log.ipynb''"
    by code_simp
  from 1 2 example_notes_log [of normalizePath] show ?thesis by simp
qed

subsection \<open>Trailing separators\<close>

text \<open>
  For a folder both paths end with the separator, whatever the normalizer returns.
\<close>

lemma folder_paths_end_with_separator:
  assumes "constructor np a r True v = Inr x"
  shows "endsWith (absolutePath x) ''/''
     \<and> (case relativePath x of None \<Rightarrow> True | Some rel \<Rightarrow> endsWith rel ''/'')"
  using assms
  by (auto simp: constructor_def Let_def endsWith_slash split: option.splits if_splits)

text \<open>
  C1. The source cuts the trailing separator of a file's relative path with
  \<open>relative.substring(0, absolute.length - 1)\<close>: the length is that of the absolute path,
  not of the relative one. In the calls below the absolute path is the longer of the two,
  so nothing is cut: \<open>fromAbsolute("/vault/Notes/", false, vault)\<close> under the root
  \<open>/vault/\<close> is flagged as a file and its relative path \<open>Notes/\<close> still ends with the
  separator. The same happens when \<open>append("sub/", false)\<close> is called on a folder.
\<close>

theorem file_relative_keeps_separator:
  "fromAbsolute normalizePath ''/vault/Notes/'' False \<lparr>adapter = FileSystemAdapter ''/vault/''\<rparr> =
     Inr \<lparr>absolutePath = ''/vault/Notes'', relativePath = Some ''Notes/'',
          isDirectory = False, isInVault = True\<rparr>
   \<and> endsWith ''Notes/'' ''/''
   \<and> append_path normalizePath
        \<lparr>absolutePath = ''/vault/Notes/'', relativePath = Some ''Notes/'',
         isDirectory = True, isInVault = True\<rparr> ''sub/'' False =
     Inr \<lparr>absolutePath = ''/vault/Notes/sub'', relativePath = Some ''Notes/sub/'',
          isDirectory = False, isInVault = True\<rparr>"
  by code_simp

text \<open>
  C2. \<open>fromRelative\<close> normalizes the absolute path only. The relative path keeps a
  redundant separator: \<open>fromRelative("Notes//Logs", true, vault)\<close> reads back as
  \<open>Notes//Logs/\<close>, while the normalized form of the argument is \<open>Notes/Logs\<close>. For a file,
  \<open>fromRelative("a/", false, vault)\<close> reads back as \<open>a/\<close>, trailing separator included.
\<close>

theorem fromRelative_not_normalized:
  "map_sum id getRelativePath
     (fromRelative normalizePath ''Notes//Logs'' True \<lparr>adapter = FileSystemAdapter ''/vault''\<rparr>) =
     Inr (Some ''Notes//Logs/'')
   \<and> map_sum id getAbsolutePath
     (fromRelative normalizePath ''Notes//Logs'' True \<lparr>adapter = FileSystemAdapter ''/vault''\<rparr>) =
     Inr ''/vault/Notes/Logs/''
   \<and> normalizePath ''Notes//Logs'' = ''Notes/Logs''
   \<and> map_sum id getRelativePath
     (fromRelative normalizePath ''a/'' False \<lparr>adapter = FileSystemAdapter ''/vault''\<rparr>) =
     Inr (Some ''a/'')"
  by code_simp

subsection \<open>Classification by \<open>fromAbsolute\<close>\<close>

text \<open>
  C3, as stated, fails in both halves. The source compares with the root string as the
  adapter returns it and never normalizes it. Under the root \<open>C:\<close>, backslash,
  \<open>vault\<close>, whose normalized form is \<open>C:/vault\<close>, a path written with backslashes is
  classified in-vault although it does not start with the normalized root; under the
  root \<open>/vault//\<close>, whose normalized form is \<open>/vault/\<close>, the path \<open>/vault/a.md\<close> is
  classified out of the vault although it starts with the normalized root. And the
  relative path of an in-vault value is not always the absolute path with the root prefix
  stripped: for a folder the constructor appends the missing separator, so \<open>/vault/notes\<close>
  under the root \<open>/vault/\<close> has the relative path \<open>notes/\<close>, and the stripped string
  is \<open>notes\<close>.
\<close>

theorem fromAbsolute_relative_counterexample:
  "fromAbsolute normalizePath (''C:'' @ [CHR 0x5C] @ ''vault'' @ [CHR 0x5C] @ ''a.md'') False
      \<lparr>adapter = FileSystemAdapter (''C:'' @ [CHR 0x5C] @ ''vault'')\<rparr> =
     Inr \<lparr>absolutePath = ''C:/vault/a.md'', relativePath = Some ([CHR 0x5C] @ ''a.md''),
          isDirectory = False, isInVault = True\<rparr>
   \<and> normalizePath (''C:'' @ [CHR 0x5C] @ ''vault'') = ''C:/vault''
   \<and> \<not> startsWith (''C:'' @ [CHR 0x5C] @ ''vault'' @ [CHR 0x5C] @ ''a.md'') ''C:/vault''
   \<and> fromAbsolute normalizePath ''/vault/a.md'' False
      \<lparr>adapter = FileSystemAdapter ''/vault//''\<rparr> =
     Inr \<lparr>absolutePath = ''/vault/a.md'', relativePath = None,
          isDirectory = False, isInVault = False\<rparr>
   \<and> normalizePath ''/vault//'' = ''/vault/''
   \<and> startsWith ''/vault/a.md'' ''/vault/''
   \<and> fromAbsolute normalizePath ''/vault/notes'' True \<lparr>adapter = FileSystemAdapter ''/vault/''\<rparr> =
     Inr \<lparr>absolutePath = ''/vault/notes/'', relativePath = Some ''notes/'',
          isDirectory = True, isInVault = True\<rparr>
   \<and> normalizePath ''/vault/'' = ''/vault/''
   \<and> startsWith ''/vault/notes'' ''/vault/''
   \<and> substringFrom ''/vault/notes'' (int (length ''/vault/'')) = ''notes''
   \<and> ''notes/'' \<noteq> ''notes''"
  by code_simp

text \<open>
  C3, amended. When the vault has a file-system adapter with base path \<open>root\<close>,
  \<open>fromAbsolute(a, f, vault)\<close> returns a value; its \<open>inVault()\<close> is true exactly when \<open>a\<close>
  starts with \<open>root\<close>, the string as the adapter gives it, which the source does not
  normalize. When in-vault and \<open>f\<close> is set, the relative path is \<open>a\<close> with the first
  \<open>length root\<close> characters removed, followed by a separator unless it already ends with
  one. When in-vault, \<open>f\<close> is unset and the stripped string does not end with a separator,
  the relative path is the stripped string. When not in-vault there is no relative path.
\<close>

theorem fromAbsolute_classifies:
  assumes "adapter vault = FileSystemAdapter root"
  shows "\<exists>x. fromAbsolute np a f vault = Inr x
     \<and> JupyterAbstractPath_inVault x = startsWith a root
     \<and> (startsWith a root \<and> f \<longrightarrow>
          getRelativePath x =
            Some (if endsWith (drop (length root) a) ''/'' then drop (length root) a
                  else drop (length root) a @ ''/''))
     \<and> (startsWith a root \<and> \<not> f \<and> \<not> endsWith (drop (length root) a) ''/'' \<longrightarrow>
          getRelativePath x = Some (drop (length root) a))
     \<and> (\<not> startsWith a root \<longrightarrow> getRelativePath x = None)"
  using assms
  by (auto simp: fromAbsolute_def getVaultRootPath_def inVault_def constructor_def Let_def
      getRelativePath_def JupyterAbstractPath_inVault_def substringFrom_drop)

theorem fromAbsolute_classifies_witness:
  "adapter \<lparr>adapter = FileSystemAdapter ''/vault/''\<rparr> = FileSystemAdapter ''/vault/''
   \<and> startsWith ''/vault/Notes/Log.ipynb'' ''/vault/''
   \<and> fromAbsolute normalizePath ''/vault/Notes/Log.ipynb'' False
        \<lparr>adapter = FileSystemAdapter ''/vault/''\<rparr> =
       Inr \<lparr>absolutePath = ''/vault/Notes/Log.ipynb'', relativePath = Some ''Notes/Log.ipynb'',
            isDirectory = False, isInVault = True\<rparr>
   \<and> drop (length ''/vault/'') ''/vault/Notes/Log.ipynb'' = ''Notes/Log.ipynb''"
proof -
  have e: "fromAbsolute normalizePath ''/vault/Notes/Log.ipynb'' False
        \<lparr>adapter = FileSystemAdapter ''/vault/''\<rparr> =
       Inr \<lparr>absolutePath = ''/vault/Notes/Log.ipynb'', relativePath = Some ''Notes/Log.ipynb'',
            isDirectory = False, isInVault = True\<rparr>"
    by code_simp
  have s: "startsWith ''/vault/Notes/Log.ipynb'' ''/vault/''"
    by code_simp
  from e s fromAbsolute_classifies
    [of "\<lparr>adapter = FileSystemAdapter ''/vault/''\<rparr>" "''/vault/''" normalizePath
        "''/vault/Notes/Log.ipynb''" False]
  show ?thesis by simp
qed

subsection \<open>Appending twice\<close>














subsection \<open>\<open>append\<close> allocates and leaves its receiver alone\<close>

lemma append_ref_append_path:
  "append_ref np this c f st =
     (case append_path np (st ! this) c f of
        Inl e \<Rightarrow> (Inl e, st)
      | Inr obj \<Rightarrow> (Inr (length st), st @ [obj]))"
  by (simp add: append_ref_def append_path_def new_JupyterAbstractPath_def Let_def)


text \<open>
  C9. Let \<open>this\<close> refer to a folder in the store, an object that the constructor returned
  with the directory flag set. Then \<open>append\<close> returns a reference to a new object, placed
  after every object of the store, and the store is otherwise as before: the receiver and
  every other object keep their four fields. The new object carries the in-vault flag of
  the receiver and the directory flag asked for, and it is what the constructor makes of
  the receiver's absolute and relative paths, each followed by the argument without its
  one leading separator.
\<close>

theorem append_allocates_and_keeps_receiver:
  assumes "this < length st"
    and "constructor np a0 r0 True v0 = Inr (st ! this)"
  shows "\<exists>new.
      append_ref np this c f st = (Inr (length st), st @ [new])
    \<and> length st \<noteq> this
    \<and> (st @ [new]) ! this = st ! this
    \<and> take (length st) (st @ [new]) = st
    \<and> isInVault new = isInVault (st ! this)
    \<and> isDirectory new = f
    \<and> constructor np
         (absolutePath (st ! this) @ (if startsWith c ''/'' then drop 1 c else c))
         (map_option (\<lambda>r. r @ (if startsWith c ''/'' then drop 1 c else c))
            (relativePath (st ! this)))
         f (isInVault (st ! this)) = Inr new"
proof -
  obtain new where n: "append_path np (st ! this) c f = Inr new"
    using append_path_constructed [OF assms(2)] by blast
  have d: "isDirectory (st ! this)"
    using constructor_fields [OF assms(2)] by simp
  have c: "constructor np
         (absolutePath (st ! this) @ (if startsWith c ''/'' then drop 1 c else c))
         (map_option (\<lambda>r. r @ (if startsWith c ''/'' then drop 1 c else c))
            (relativePath (st ! this)))
         f (isInVault (st ! this)) = Inr new"
    using n d
    by (cases "relativePath (st ! this)")
       (auto simp: append_path_def isFolder_def JupyterAbstractPath_inVault_def Let_def
          substringFrom_1 split: if_splits)
  have "append_ref np this c f st = (Inr (length st), st @ [new])"
    by (simp add: append_ref_append_path n)
  moreover have "(st @ [new]) ! this = st ! this"
    using assms(1) by (simp add: nth_append)
  moreover have "isInVault new = isInVault (st ! this)" "isDirectory new = f"
    using constructor_fields [OF c] by simp_all
  ultimately show ?thesis
    using assms(1) c by auto
qed

theorem append_allocates_and_keeps_receiver_witness:
  "(0::nat) < length [\<lparr>absolutePath = ''/vault/Notes/'', relativePath = Some ''Notes/'',
                       isDirectory = True, isInVault = True\<rparr>]
   \<and> constructor normalizePath ''/vault/Notes'' (Some ''Notes'') True True =
       Inr ([\<lparr>absolutePath = ''/vault/Notes/'', relativePath = Some ''Notes/'',
              isDirectory = True, isInVault = True\<rparr>] ! 0)
   \<and> append_ref normalizePath 0 ''/a.ipynb'' False
        [\<lparr>absolutePath = ''/vault/Notes/'', relativePath = Some ''Notes/'',
          isDirectory = True, isInVault = True\<rparr>]
     = (Inr 1,
        [\<lparr>absolutePath = ''/vault/Notes/'', relativePath = Some ''Notes/'',
          isDirectory = True, isInVault = True\<rparr>,
         \<lparr>absolutePath = ''/vault/Notes/a.ipynb'', relativePath = Some ''Notes/a.ipynb'',
          isDirectory = False, isInVault = True\<rparr>])"
proof -
  have c: "constructor normalizePath ''/vault/Notes'' (Some ''Notes'') True True =
       Inr ([\<lparr>absolutePath = ''/vault/Notes/'', relativePath = Some ''Notes/'',
              isDirectory = True, isInVault = True\<rparr>] ! 0)"
    by code_simp
  have n: "constructor normalizePath ''/vault/Notes/a.ipynb'' (Some ''Notes/a.ipynb'') False True =
       Inr \<lparr>absolutePath = ''/vault/Notes/a.ipynb'', relativePath = Some ''Notes/a.ipynb'',
          isDirectory = False, isInVault = True\<rparr>"
    by code_simp
  from c n append_allocates_and_keeps_receiver
    [of 0 "[\<lparr>absolutePath = ''/vault/Notes/'', relativePath = Some ''Notes/'',
              isDirectory = True, isInVault = True\<rparr>]"
        normalizePath "''/vault/Notes''" "Some ''Notes''" True "''/a.ipynb''" False]
  show ?thesis
    by (simp add: startsWith_slash)
qed

section \<open>Properties of notebook creation\<close>

lemma getDefaultNotebookFilename_ends:
  "\<not> startsWith (getDefaultNotebookFilename now) ''/''
   \<and> \<not> endsWith (r @ getDefaultNotebookFilename now) ''/''"
  by (simp add: getDefaultNotebookFilename_def Let_def startsWith_slash endsWith_slash)

lemma append_filename:
  assumes "constructor np a0 r0 True True = Inr folder"
  shows "\<exists>r file. relativePath folder = Some r
     \<and> append_path np folder (getDefaultNotebookFilename now) False = Inr file
     \<and> getRelativePath file = Some (r @ getDefaultNotebookFilename now)"
proof -
  have f: "isDirectory folder" "isInVault folder" "relativePath folder \<noteq> None"
    using constructor_fields [OF assms] by simp_all
  then obtain r where r: "relativePath folder = Some r" by auto
  show ?thesis
    using f r getDefaultNotebookFilename_ends [of now r]
    by (simp add: append_path_def isFolder_def JupyterAbstractPath_inVault_def Let_def
        constructor_def getRelativePath_def)
qed

text \<open>
  C8. Let \<open>folder\<close> be an in-vault folder that the constructor returned, with relative
  path \<open>r\<close>. \<open>createJupyterNotebook\<close> returns normally. It asks the adapter whether
  \<open>r\<close> followed by the default file name exists; when it does, a notice naming the file
  is shown and nothing else changes, and in either case the minimal notebook document is
  then written to that path, replacing what was there, and the file is opened. The
  document is written verbatim: an empty \<open>cells\<close> list, a \<open>metadata\<close> object whose
  kernel and language names are empty strings, \<open>nbformat\<close> 4 and \<open>nbformat_minor\<close> 5.
\<close>

theorem create_writes_despite_existing:
  assumes "constructor np a0 r0 True True = Inr folder"
  shows \<open>\<exists>r. relativePath folder = Some r
     \<and> createJupyterNotebook np now folder h =
        (Inr (),
         h\<lparr>files := (files h)(r @ getDefaultNotebookFilename now \<mapsto>
             ''{"cells": [],"metadata": {"kernelspec": {"display_name": "","name": ""},"language_info": {"name": ""}},"nbformat": 4,"nbformat_minor": 5}''),
           calls := calls h
             @ [Exists (r @ getDefaultNotebookFilename now)]
             @ (if files h (r @ getDefaultNotebookFilename now) \<noteq> None
                then [Notice (''The file "'' @ (r @ getDefaultNotebookFilename now)
                        @ ''" already exists, creation was aborted to avoid overwriting it. Please try again.'')]
                else [])
             @ [Write (r @ getDefaultNotebookFilename now)
                  ''{"cells": [],"metadata": {"kernelspec": {"display_name": "","name": ""},"language_info": {"name": ""}},"nbformat": 4,"nbformat_minor": 5}'',
                OpenFile (r @ getDefaultNotebookFilename now)]\<rparr>)\<close>
proof -
  obtain r file' where r: "relativePath folder = Some r"
    and a: "append_path np folder (getDefaultNotebookFilename now) False = Inr file'"
    and p: "getRelativePath file' = Some (r @ getDefaultNotebookFilename now)"
    using append_filename [OF assms] by blast
  have v: "JupyterAbstractPath_inVault folder"
    using constructor_fields [OF assms] by (simp add: JupyterAbstractPath_inVault_def)
  have "createJupyterNotebook np now folder h =
        (Inr (),
         h\<lparr>files := (files h)(r @ getDefaultNotebookFilename now \<mapsto> minimalNotebook),
           calls := calls h
             @ [Exists (r @ getDefaultNotebookFilename now)]
             @ (if files h (r @ getDefaultNotebookFilename now) \<noteq> None
                then [Notice (alreadyExists (r @ getDefaultNotebookFilename now))] else [])
             @ [Write (r @ getDefaultNotebookFilename now) minimalNotebook,
                OpenFile (r @ getDefaultNotebookFilename now)]\<rparr>)"
    by (simp add: createJupyterNotebook_def v a p adapter_exists_def adapter_write_def
        new_Notice_def openFile_def Let_def)
  with r show ?thesis
    by (simp add: minimalNotebook_def alreadyExists_def)
qed

theorem create_writes_despite_existing_witness:
  \<open>constructor normalizePath ''/vault/Notes'' (Some ''Notes'') True True =
     Inr \<lparr>absolutePath = ''/vault/Notes/'', relativePath = Some ''Notes/'',
          isDirectory = True, isInVault = True\<rparr>
   \<and> createJupyterNotebook normalizePath
        \<lparr>getFullYear = 2024, getMonth = 0, getDate = 5, getHours = 9, getMinutes = 3,
         getSeconds = 7\<rparr>
        \<lparr>absolutePath = ''/vault/Notes/'', relativePath = Some ''Notes/'',
         isDirectory = True, isInVault = True\<rparr>
        \<lparr>files = [''Notes/Jupyter Notebook 2024-01-05-09-03-07.ipynb'' \<mapsto> ''old''],
         calls = []\<rparr>
     = (Inr (),
        \<lparr>files = [''Notes/Jupyter Notebook 2024-01-05-09-03-07.ipynb'' \<mapsto>
            ''{"cells": [],"metadata": {"kernelspec": {"display_name": "","name": ""},"language_info": {"name": ""}},"nbformat": 4,"nbformat_minor": 5}''],
         calls = [Exists ''Notes/Jupyter Notebook 2024-01-05-09-03-07.ipynb'',
                  Notice ''The file "Notes/Jupyter Notebook 2024-01-05-09-03-07.ipynb" already exists, creation was aborted to avoid overwriting it. Please try again.'',
                  Write ''Notes/Jupyter Notebook 2024-01-05-09-03-07.ipynb''
                    ''{"cells": [],"metadata": {"kernelspec": {"display_name": "","name": ""},"language_info": {"name": ""}},"nbformat": 4,"nbformat_minor": 5}'',
                  OpenFile ''Notes/Jupyter Notebook 2024-01-05-09-03-07.ipynb'']\<rparr>)\<close>
proof -
  have c: "constructor normalizePath ''/vault/Notes'' (Some ''Notes'') True True =
     Inr \<lparr>absolutePath = ''/vault/Notes/'', relativePath = Some ''Notes/'',
          isDirectory = True, isInVault = True\<rparr>"
    by code_simp
  have n: "getDefaultNotebookFilename
        \<lparr>getFullYear = 2024, getMonth = 0, getDate = 5, getHours = 9, getMinutes = 3,
         getSeconds = 7\<rparr> = ''Jupyter Notebook 2024-01-05-09-03-07.ipynb''"
    by code_simp
  from c create_writes_despite_existing
    [of normalizePath "''/vault/Notes''" "Some ''Notes''"
        "\<lparr>absolutePath = ''/vault/Notes/'', relativePath = Some ''Notes/'',
          isDirectory = True, isInVault = True\<rparr>"
        "\<lparr>getFullYear = 2024, getMonth = 0, getDate = 5, getHours = 9, getMinutes = 3,
          getSeconds = 7\<rparr>"
        "\<lparr>files = [''Notes/Jupyter Notebook 2024-01-05-09-03-07.ipynb'' \<mapsto> ''old''],
          calls = []\<rparr>"]
  show ?thesis
    by (simp add: n)
qed

text \<open>
  C10. For a folder that is not in the vault, \<open>createJupyterNotebook\<close> throws at once: the
  host is returned as it was, with no existence check, write, notice or opened file added
  to its calls.
\<close>

theorem create_outside_vault_fails:
  "\<not> JupyterAbstractPath_inVault folder \<Longrightarrow>
   createJupyterNotebook np now folder h = (Inl outsideVault, h)"
  by (simp add: createJupyterNotebook_def)

theorem create_outside_vault_fails_witness:
  "\<not> JupyterAbstractPath_inVault
       \<lparr>absolutePath = ''/tmp/work/'', relativePath = None,
        isDirectory = True, isInVault = False\<rparr>
   \<and> createJupyterNotebook normalizePath
        \<lparr>getFullYear = 2024, getMonth = 0, getDate = 5, getHours = 9, getMinutes = 3,
         getSeconds = 7\<rparr>
        \<lparr>absolutePath = ''/tmp/work/'', relativePath = None,
         isDirectory = True, isInVault = False\<rparr>
        \<lparr>files = Map.empty, calls = []\<rparr>
     = (Inl outsideVault, \<lparr>files = Map.empty, calls = []\<rparr>)"
  using create_outside_vault_fails
    [of "\<lparr>absolutePath = ''/tmp/work/'', relativePath = None,
          isDirectory = True, isInVault = False\<rparr>"
        normalizePath
        "\<lparr>getFullYear = 2024, getMonth = 0, getDate = 5, getHours = 9, getMinutes = 3,
          getSeconds = 7\<rparr>"
        "\<lparr>files = Map.empty, calls = []\<rparr>"]
  by (simp add: JupyterAbstractPath_inVault_def)

end
